theory Spec2Isabelle
  imports Complex_Main
begin

section \<open>Python values\<close>

text \<open>
  The five tools of \<^verbatim>\<open>ebaymcp.py\<close> return Python dictionaries built from dictionary
  and list literals. A dictionary is an association list in the order of the literal, so
  that two equal models are equal dictionaries.

  A Python \<^verbatim>\<open>float\<close> is an IEEE 754 binary64 number: a finite value, given here by the
  rational it denotes, or one of the three special values. Every float literal and
  every float operation rounds its exact result to the nearest binary64 number, ties
  to even. The two zeros are not told apart (they compare equal, and \<^verbatim>\<open>int\<close> maps both
  to 0).
\<close>

datatype pyfloat = Finite rat | Infinity | NegInfinity | NaN

datatype pyval =
    PNone
  | PBool bool
  | PInt int
  | PFloat pyfloat
  | PStr string
  | PList "pyval list"
  | PDict "(string \<times> pyval) list"

datatype exn =
    ZeroDivisionError string
  | OverflowError string
  | ValueError string

text \<open>\<^verbatim>\<open>str(e)\<close> of an exception raised with one message argument.\<close>

fun str_exn :: "exn \<Rightarrow> string" where
  "str_exn (ZeroDivisionError m) = m"
| "str_exn (OverflowError m) = m"
| "str_exn (ValueError m) = m"

text \<open>
  Comparison of floats; every comparison with NaN is false. Python compares an
  \<^verbatim>\<open>int\<close> with a float exactly, so an integer operand \<open>n\<close> of a comparison is
  \<open>Finite n\<close>.
\<close>

fun fle :: "pyfloat \<Rightarrow> pyfloat \<Rightarrow> bool" where
  "fle NaN _ = False"
| "fle _ NaN = False"
| "fle NegInfinity _ = True"
| "fle _ Infinity = True"
| "fle (Finite a) (Finite b) = (a \<le> b)"
| "fle Infinity _ = False"
| "fle _ NegInfinity = False"

fun flt :: "pyfloat \<Rightarrow> pyfloat \<Rightarrow> bool" where
  "flt NaN _ = False"
| "flt _ NaN = False"
| "flt Infinity _ = False"
| "flt _ NegInfinity = False"
| "flt (Finite a) (Finite b) = (a < b)"
| "flt NegInfinity _ = True"
| "flt _ Infinity = True"

text \<open>
  Rounding a rational to binary64. For \<open>r > 0\<close>, \<open>floor_log2 r\<close> is the exponent \<open>e\<close> with
  \<open>2 ^ e \<le> r < 2 ^ (e + 1)\<close>; the unit in the last place is \<open>2 ^ (e - 52)\<close>, and
  \<open>2 ^ (- 1074)\<close> for the subnormal numbers. A result of magnitude \<open>2 ^ 1024\<close> or more
  is an infinity.
\<close>

fun bit_length :: "nat \<Rightarrow> nat" where
  "bit_length n = (if n = 0 then 0 else Suc (bit_length (n div 2)))"

declare bit_length.simps [simp del]

definition floor_log2 :: "rat \<Rightarrow> int" where
  "floor_log2 r =
     (if 1 \<le> r then int (bit_length (nat \<lfloor>r\<rfloor>)) - 1
      else - int (bit_length (nat (\<lceil>1 / r\<rceil> - 1))))"

definition pow2 :: "int \<Rightarrow> rat" where
  "pow2 k = (if 0 \<le> k then of_int (2 ^ nat k) else 1 / of_int (2 ^ nat (- k)))"

definition round_half_even :: "rat \<Rightarrow> int" where
  "round_half_even y =
     (let f = \<lfloor>y\<rfloor>; d = y - of_int f
      in if d < 1 / 2 then f else if 1 / 2 < d then f + 1
         else if even f then f else f + 1)"

definition nearest_double :: "rat \<Rightarrow> rat" where
  "nearest_double r =
     (if r = 0 then 0
      else let ulp = pow2 (max (floor_log2 \<bar>r\<bar> - 52) (- 1074))
           in sgn r * of_int (round_half_even (\<bar>r\<bar> / ulp)) * ulp)"

definition round_double :: "rat \<Rightarrow> pyfloat" where
  "round_double r =
     (let v = nearest_double r
      in if v = 0 \<or> floor_log2 \<bar>v\<bar> < 1024 then Finite v
         else if 0 < v then Infinity
         else NegInfinity)"

text \<open>The float that a decimal literal of the source denotes.\<close>

definition lit :: "rat \<Rightarrow> pyfloat" where
  "lit x = round_double x"

text \<open>\<^verbatim>\<open>x - y\<close>, \<^verbatim>\<open>x * y\<close> and \<^verbatim>\<open>x / y\<close> of two floats.\<close>

fun fsub :: "pyfloat \<Rightarrow> pyfloat \<Rightarrow> pyfloat" where
  "fsub NaN _ = NaN"
| "fsub _ NaN = NaN"
| "fsub (Finite a) (Finite b) = round_double (a - b)"
| "fsub Infinity Infinity = NaN"
| "fsub NegInfinity NegInfinity = NaN"
| "fsub Infinity _ = Infinity"
| "fsub NegInfinity _ = NegInfinity"
| "fsub _ Infinity = NegInfinity"
| "fsub _ NegInfinity = Infinity"

fun fmul :: "pyfloat \<Rightarrow> pyfloat \<Rightarrow> pyfloat" where
  "fmul NaN _ = NaN"
| "fmul _ NaN = NaN"
| "fmul (Finite a) (Finite b) = round_double (a * b)"
| "fmul (Finite a) Infinity =
     (if 0 < a then Infinity else if a < 0 then NegInfinity else NaN)"
| "fmul (Finite a) NegInfinity =
     (if 0 < a then NegInfinity else if a < 0 then Infinity else NaN)"
| "fmul Infinity (Finite b) =
     (if 0 < b then Infinity else if b < 0 then NegInfinity else NaN)"
| "fmul NegInfinity (Finite b) =
     (if 0 < b then NegInfinity else if b < 0 then Infinity else NaN)"
| "fmul Infinity Infinity = Infinity"
| "fmul Infinity NegInfinity = NegInfinity"
| "fmul NegInfinity Infinity = NegInfinity"
| "fmul NegInfinity NegInfinity = Infinity"

fun fdiv :: "pyfloat \<Rightarrow> pyfloat \<Rightarrow> exn + pyfloat" where
  "fdiv x (Finite b) =
     (if b = 0 then Inl (ZeroDivisionError ''float division by zero'')
      else Inr (case x of
          Finite a \<Rightarrow> round_double (a / b)
        | Infinity \<Rightarrow> (if 0 < b then Infinity else NegInfinity)
        | NegInfinity \<Rightarrow> (if 0 < b then NegInfinity else Infinity)
        | NaN \<Rightarrow> NaN))"
| "fdiv NaN _ = Inr NaN"
| "fdiv _ NaN = Inr NaN"
| "fdiv (Finite a) _ = Inr (Finite 0)"
| "fdiv _ _ = Inr NaN"

text \<open>
  The conversion of an \<^verbatim>\<open>int\<close> operand of a float operation: the nearest float, an
  exception when the integer is beyond the largest float.
\<close>

definition float_of_int :: "int \<Rightarrow> exn + pyfloat" where
  "float_of_int n =
     (case round_double (of_int n) of
        Finite v \<Rightarrow> Inr (Finite v)
      | _ \<Rightarrow> Inl (OverflowError ''int too large to convert to float''))"

text \<open>\<^verbatim>\<open>int(x)\<close> of a float: truncation towards zero, an exception on the special values.\<close>

definition trunc_rat :: "rat \<Rightarrow> int" where
  "trunc_rat x = (if 0 \<le> x then \<lfloor>x\<rfloor> else \<lceil>x\<rceil>)"

fun py_int :: "pyfloat \<Rightarrow> exn + int" where
  "py_int (Finite x) = Inr (trunc_rat x)"
| "py_int Infinity = Inl (OverflowError ''cannot convert float infinity to integer'')"
| "py_int NegInfinity = Inl (OverflowError ''cannot convert float infinity to integer'')"
| "py_int NaN = Inl (ValueError ''cannot convert float NaN to integer'')"

text \<open>\<^verbatim>\<open>str\<close> of an integer, as an f-string formats it.\<close>

fun str_nat :: "nat \<Rightarrow> string" where
  "str_nat n =
     (if n < 10 then [''0123456789'' ! n]
      else str_nat (n div 10) @ [''0123456789'' ! (n mod 10)])"

declare str_nat.simps [simp del]

definition str_int :: "int \<Rightarrow> string" where
  "str_int i = (if i < 0 then ''-'' @ str_nat (nat (- i)) else str_nat (nat i))"

text \<open>
  The format \<^verbatim>\<open>:.2f\<close> of a float: the exact value of the float in two decimals,
  ties to even.
\<close>

fun fmt_2f :: "pyfloat \<Rightarrow> string" where
  "fmt_2f (Finite x) =
     (let c = nat (round_half_even (\<bar>x\<bar> * 100)); r = c mod 100
      in (if x < 0 then ''-'' else []) @ str_nat (c div 100) @ ''.''
         @ (if r < 10 then ''0'' else []) @ str_nat r)"
| "fmt_2f Infinity = ''inf''"
| "fmt_2f NegInfinity = ''-inf''"
| "fmt_2f NaN = ''nan''"

text \<open>\<^verbatim>\<open>s.replace('-', ' - ')\<close>.\<close>

definition replace_hyphen :: "string \<Rightarrow> string" where
  "replace_hyphen s = concat (map (\<lambda>c. if c = CHR ''-'' then '' - '' else [c]) s)"

text \<open>
  \<^verbatim>\<open>max(xs, key=f)\<close> and \<^verbatim>\<open>min(xs, key=f)\<close>: the first element whose key is
  largest (smallest); an empty sequence raises \<^verbatim>\<open>ValueError\<close> (with the message
  of CPython 3.11; the holdings of the portfolio literal are never empty).
\<close>

fun max_by :: "('a \<Rightarrow> pyfloat) \<Rightarrow> 'a list \<Rightarrow> exn + 'a" where
  "max_by f [] = Inl (ValueError ''max() arg is an empty sequence'')"
| "max_by f (x # xs) = Inr (foldl (\<lambda>best y. if flt (f best) (f y) then y else best) x xs)"

fun min_by :: "('a \<Rightarrow> pyfloat) \<Rightarrow> 'a list \<Rightarrow> exn + 'a" where
  "min_by f [] = Inl (ValueError ''min() arg is an empty sequence'')"
| "min_by f (x # xs) = Inr (foldl (\<lambda>best y. if flt (f y) (f best) then y else best) x xs)"

text \<open>Reading a returned dictionary: \<^verbatim>\<open>d.get(k)\<close> and \<^verbatim>\<open>d.items()\<close>.\<close>

fun field :: "string \<Rightarrow> pyval \<Rightarrow> pyval option" where
  "field k (PDict kvs) = map_of kvs k"
| "field k _ = None"

fun items :: "pyval \<Rightarrow> (string \<times> pyval) list" where
  "items (PDict kvs) = kvs"
| "items _ = []"

abbreviation pfloat :: "rat \<Rightarrow> pyval" where
  "pfloat x \<equiv> PFloat (Finite x)"

section \<open>track\_product\_prices\<close>

record price_analysis =
  pa_product_name :: string
  pa_data_points :: int
  pa_date_range :: int
  pa_sold_listings :: int
  pa_active_listings :: int
  pa_avg_sold_price :: pyfloat
  pa_median_sold_price :: pyfloat
  pa_min_sold_price :: pyfloat
  pa_max_sold_price :: pyfloat
  pa_sold_price_volatility :: pyfloat
  pa_avg_active_price :: pyfloat
  pa_median_active_price :: pyfloat
  pa_min_active_price :: pyfloat
  pa_max_active_price :: pyfloat

definition price_analysis_dict :: "price_analysis \<Rightarrow> pyval" where
  "price_analysis_dict a = PDict
     [(''product_name'', PStr (pa_product_name a)),
      (''data_points'', PInt (pa_data_points a)),
      (''date_range'', PInt (pa_date_range a)),
      (''sold_listings'', PInt (pa_sold_listings a)),
      (''active_listings'', PInt (pa_active_listings a)),
      (''avg_sold_price'', PFloat (pa_avg_sold_price a)),
      (''median_sold_price'', PFloat (pa_median_sold_price a)),
      (''min_sold_price'', PFloat (pa_min_sold_price a)),
      (''max_sold_price'', PFloat (pa_max_sold_price a)),
      (''sold_price_volatility'', PFloat (pa_sold_price_volatility a)),
      (''avg_active_price'', PFloat (pa_avg_active_price a)),
      (''median_active_price'', PFloat (pa_median_active_price a)),
      (''min_active_price'', PFloat (pa_min_active_price a)),
      (''max_active_price'', PFloat (pa_max_active_price a))]"

text \<open>The body of the \<^verbatim>\<open>try\<close> block: \<open>Inl\<close> is a raised exception.\<close>

definition track_product_prices_try :: "string \<Rightarrow> string \<Rightarrow> exn + pyval" where
  "track_product_prices_try product_name update_frequency =
     (let force_update = (update_frequency = ''force'');
          analysis = \<lparr>
            pa_product_name = product_name,
            pa_data_points = 25,
            pa_date_range = 30,
            pa_sold_listings = 15,
            pa_active_listings = 10,
            pa_avg_sold_price = lit (8999 / 100),
            pa_median_sold_price = lit (175 / 2),
            pa_min_sold_price = lit 75,
            pa_max_sold_price = lit 105,
            pa_sold_price_volatility = lit (33 / 4),
            pa_avg_active_price = lit (185 / 2),
            pa_median_active_price = lit 90,
            pa_min_active_price = lit 85,
            pa_max_active_price = lit 110 \<rparr>
      in Inr (PDict
        [(''success'', PBool True),
         (''data'', price_analysis_dict analysis),
         (''summary'', PStr (''Found '' @ str_int (pa_data_points analysis)
             @ '' listings for '' @ product_name)),
         (''recommendation'', PStr
            (if flt (pa_avg_active_price analysis)
                    (fmul (pa_avg_sold_price analysis) (lit (11 / 10)))
             then ''Good buying opportunity'' else ''Monitor for better prices''))]))"

text \<open>
  The tool: the \<^verbatim>\<open>except Exception\<close> clause turns an exception into a dictionary.
  (The line it writes to the log file is not part of the returned value.)
\<close>

definition track_product_prices :: "string \<Rightarrow> string \<Rightarrow> pyval" where
  "track_product_prices product_name update_frequency =
     (case track_product_prices_try product_name update_frequency of
        Inr result \<Rightarrow> result
      | Inl e \<Rightarrow> PDict
          [(''success'', PBool False),
           (''error'', PStr (str_exn e)),
           (''product_name'', PStr product_name)])"

section \<open>find\_arbitrage\_opportunities\<close>

record arbitrage_opportunity =
  buy_price :: pyfloat
  sell_price :: pyfloat
  net_profit :: pyfloat
  roi_percentage :: pyfloat
  confidence_score :: int
  estimated_fees :: pyfloat
  buy_source :: string
  sell_source :: string

definition arbitrage_opportunity_dict :: "arbitrage_opportunity \<Rightarrow> pyval" where
  "arbitrage_opportunity_dict opp = PDict
     [(''buy_price'', PFloat (buy_price opp)),
      (''sell_price'', PFloat (sell_price opp)),
      (''net_profit'', PFloat (net_profit opp)),
      (''roi_percentage'', PFloat (roi_percentage opp)),
      (''confidence_score'', PInt (confidence_score opp)),
      (''estimated_fees'', PFloat (estimated_fees opp)),
      (''buy_source'', PStr (buy_source opp)),
      (''sell_source'', PStr (sell_source opp))]"

definition opportunities :: "arbitrage_opportunity list" where
  "opportunities =
     [\<lparr> buy_price = lit 85,
        sell_price = lit 95,
        net_profit = lit (13 / 2),
        roi_percentage = lit (38 / 5),
        confidence_score = 78,
        estimated_fees = lit (7 / 2),
        buy_source = ''eBay Auctions'',
        sell_source = ''eBay Buy-It-Now'' \<rparr>]"

text \<open>
  \<open>repr\<close> is Python's conversion of a float to text, which the f-string of the branch
  without opportunities applies to \<^verbatim>\<open>min_profit_margin\<close>; it is a parameter.
\<close>

definition find_arbitrage_opportunities_try ::
  "(pyfloat \<Rightarrow> string) \<Rightarrow> string \<Rightarrow> pyfloat \<Rightarrow> pyfloat \<Rightarrow> exn + pyval" where
  "find_arbitrage_opportunities_try repr product_name min_profit_margin max_investment =
     (if opportunities \<noteq> [] then
        (let best_opp = hd opportunities in
         case fdiv max_investment (buy_price best_opp) of
           Inl e \<Rightarrow> Inl e
         | Inr ratio \<Rightarrow>
             (case py_int ratio of
                Inl e \<Rightarrow> Inl e
              | Inr max_units \<Rightarrow>
                  (case float_of_int max_units of
                     Inl e \<Rightarrow> Inl e
                   | Inr units \<Rightarrow>
                       (let total_profit = fmul (net_profit best_opp) units
                        in Inr (PDict
                          [(''success'', PBool True),
                           (''opportunities_found'', PInt (int (length opportunities))),
                           (''best_opportunity'', arbitrage_opportunity_dict best_opp),
                           (''scaled_analysis'', PDict
                              [(''max_units'', PInt max_units),
                               (''total_profit'', PFloat total_profit),
                               (''total_investment'', PFloat max_investment)]),
                           (''product_name'', PStr product_name)])))))
      else Inr (PDict
        [(''success'', PBool True),
         (''opportunities_found'', PInt 0),
         (''message'', PStr (''No arbitrage opportunities found for '' @ product_name
             @ '' with '' @ repr min_profit_margin @ ''% minimum margin'')),
         (''product_name'', PStr product_name)]))"

definition find_arbitrage_opportunities ::
  "(pyfloat \<Rightarrow> string) \<Rightarrow> string \<Rightarrow> pyfloat \<Rightarrow> pyfloat \<Rightarrow> pyval" where
  "find_arbitrage_opportunities repr product_name min_profit_margin max_investment =
     (case find_arbitrage_opportunities_try repr product_name min_profit_margin max_investment of
        Inr result \<Rightarrow> result
      | Inl e \<Rightarrow> PDict
          [(''success'', PBool False),
           (''error'', PStr (str_exn e)),
           (''product_name'', PStr product_name)])"

section \<open>analyze\_investment\_potential\<close>

record investment_analysis =
  ia_product_name :: string
  ia_investment_score :: pyfloat
  ia_risk_level :: string
  ia_current_avg_price :: pyfloat
  ia_price_trend_pct :: pyfloat
  ia_volatility_pct :: pyfloat
  ia_target_price_6m :: pyfloat
  ia_target_price_1y :: pyfloat
  ia_data_points :: int
  ia_recommendation :: string
  ia_investment_horizon :: string

definition investment_analysis_dict :: "investment_analysis \<Rightarrow> pyval" where
  "investment_analysis_dict a = PDict
     [(''product_name'', PStr (ia_product_name a)),
      (''investment_score'', PFloat (ia_investment_score a)),
      (''risk_level'', PStr (ia_risk_level a)),
      (''current_avg_price'', PFloat (ia_current_avg_price a)),
      (''price_trend_pct'', PFloat (ia_price_trend_pct a)),
      (''volatility_pct'', PFloat (ia_volatility_pct a)),
      (''target_price_6m'', PFloat (ia_target_price_6m a)),
      (''target_price_1y'', PFloat (ia_target_price_1y a)),
      (''data_points'', PInt (ia_data_points a)),
      (''recommendation'', PStr (ia_recommendation a)),
      (''investment_horizon'', PStr (ia_investment_horizon a))]"

text \<open>\<^verbatim>\<open>{"short": 0.5, "medium": 1.0, "long": 2.0}.get(investment_horizon, 1.0)\<close>\<close>

definition horizon_multiplier :: "string \<Rightarrow> pyfloat" where
  "horizon_multiplier investment_horizon =
     (case map_of [(''short'', lit (1 / 2)), (''medium'', lit 1), (''long'', lit 2)]
             investment_horizon of
        Some m \<Rightarrow> m
      | None \<Rightarrow> lit 1)"

definition analyze_investment_potential_try :: "string \<Rightarrow> string \<Rightarrow> exn + pyval" where
  "analyze_investment_potential_try product_name investment_horizon =
     (let analysis = \<lparr>
            ia_product_name = product_name,
            ia_investment_score = lit (145 / 2),
            ia_risk_level = ''Medium'',
            ia_current_avg_price = lit (8999 / 100),
            ia_price_trend_pct = lit (26 / 5),
            ia_volatility_pct = lit (64 / 5),
            ia_target_price_6m = fmul (lit (189 / 2)) (horizon_multiplier investment_horizon),
            ia_target_price_1y = fmul (lit 102) (horizon_multiplier investment_horizon),
            ia_data_points = 150,
            ia_recommendation = ''Buy - Good investment opportunity with solid fundamentals'',
            ia_investment_horizon = investment_horizon \<rparr>
      in case fdiv (fsub (ia_target_price_1y analysis) (ia_current_avg_price analysis))
                (ia_current_avg_price analysis) of
           Inl e \<Rightarrow> Inl e
         | Inr ratio \<Rightarrow>
             (let potential_upside = fmul ratio (Finite 100)
              in Inr (PDict
                [(''success'', PBool True),
                 (''analysis'', investment_analysis_dict analysis),
                 (''potential_upside_pct'', PFloat potential_upside),
                 (''strategy_tips'', PList
                    [PStr (if flt (Finite 20) (ia_volatility_pct analysis)
                           then ''Dollar-cost average over 2-3 months''
                           else ''Consider lump sum investment''),
                     PStr (if flt (ia_price_trend_pct analysis) (Finite 0)
                           then ''Wait for price dip below $''
                                @ fmt_2f (fmul (ia_current_avg_price analysis) (lit (19 / 20)))
                                @ '' for better entry''
                           else ''Current pricing appears favorable''),
                     PStr (if 50 < ia_data_points analysis
                           then ''High liquidity expected''
                           else ''Monitor liquidity before large positions'')])])))"

definition analyze_investment_potential :: "string \<Rightarrow> string \<Rightarrow> pyval" where
  "analyze_investment_potential product_name investment_horizon =
     (case analyze_investment_potential_try product_name investment_horizon of
        Inr result \<Rightarrow> result
      | Inl e \<Rightarrow> PDict
          [(''success'', PBool False),
           (''error'', PStr (str_exn e)),
           (''product_name'', PStr product_name)])"

section \<open>market\_scanner\<close>

record scan_opportunity =
  so_product :: string
  so_price :: pyfloat
  so_metric :: pyfloat
  so_data :: string
  so_trend :: "pyfloat option"

definition scan_opportunity_dict :: "scan_opportunity \<Rightarrow> pyval" where
  "scan_opportunity_dict opp = PDict
     [(''product'', PStr (so_product opp)),
      (''price'', PFloat (so_price opp)),
      (''metric'', PFloat (so_metric opp)),
      (''data'', PStr (so_data opp)),
      (''trend'', (case so_trend opp of Some t \<Rightarrow> PFloat t | None \<Rightarrow> PNone))]"

text \<open>The list literal of the scanner; two of its entries depend on \<^verbatim>\<open>scan_type\<close>.\<close>

definition scan_opportunities :: "string \<Rightarrow> scan_opportunity list" where
  "scan_opportunities scan_type =
     [\<lparr> so_product = ''Dominaria United Draft Booster Box'',
        so_price = lit (8999 / 100),
        so_metric = lit (25 / 2),
        so_data = (if scan_type = ''trending'' then ''$89.99 (+12.5% trend)''
                   else ''$89.99 (15.2% ROI)''),
        so_trend = (if scan_type = ''trending'' then Some (lit (25 / 2)) else None) \<rparr>,
      \<lparr> so_product = ''The Brothers War Set Booster Box'',
        so_price = lit 145,
        so_metric = lit (87 / 10),
        so_data = (if scan_type = ''trending'' then ''$145.00 (+8.7% trend)''
                   else ''$145.00 (8.7% ROI)''),
        so_trend = (if scan_type = ''trending'' then Some (lit (87 / 10)) else None) \<rparr>]"

text \<open>
  Lines 228 to 236: the pair \<^verbatim>\<open>(price_min, price_max)\<close> after the
  \<^verbatim>\<open>if\<close>/\<^verbatim>\<open>elif\<close> chain, which has no \<^verbatim>\<open>else\<close>.
\<close>

definition price_bounds :: "string \<Rightarrow> pyfloat \<times> pyfloat" where
  "price_bounds price_range =
     (let price_min = Finite 0; price_max = Infinity
      in if price_range = ''under100'' then (price_min, Finite 100)
         else if price_range = ''100-500'' then (Finite 100, Finite 500)
         else if price_range = ''500-1000'' then (Finite 500, Finite 1000)
         else if price_range = ''over1000'' then (Finite 1000, price_max)
         else (price_min, price_max))"

text \<open>
  Lines 238 to 241: the comprehension
  \<^verbatim>\<open>[opp for opp in opportunities if price_min <= opp["price"] <= price_max]\<close>,
  for any list of opportunities.
\<close>

definition filtered_opportunities :: "string \<Rightarrow> scan_opportunity list \<Rightarrow> scan_opportunity list" where
  "filtered_opportunities price_range opps =
     (case price_bounds price_range of
        (price_min, price_max) \<Rightarrow>
          filter (\<lambda>opp. fle price_min (so_price opp) \<and> fle (so_price opp) price_max) opps)"

definition market_scanner_try :: "string \<Rightarrow> string \<Rightarrow> string \<Rightarrow> exn + pyval" where
  "market_scanner_try scan_type price_range time_period =
     (let found = filtered_opportunities price_range (scan_opportunities scan_type)
      in Inr (PDict
        [(''success'', PBool True),
         (''scan_type'', PStr scan_type),
         (''price_range'', PStr price_range),
         (''time_period'', PStr time_period),
         (''products_analyzed'', PInt 10),
         (''opportunities_found'', PInt (int (length found))),
         (''opportunities'', PList (map scan_opportunity_dict found)),
         (''summary'', PStr (''Found '' @ str_nat (length found) @ '' '' @ scan_type
             @ '' opportunities in $'' @ replace_hyphen price_range @ '' range''))]))"

definition market_scanner :: "string \<Rightarrow> string \<Rightarrow> string \<Rightarrow> pyval" where
  "market_scanner scan_type price_range time_period =
     (case market_scanner_try scan_type price_range time_period of
        Inr result \<Rightarrow> result
      | Inl e \<Rightarrow> PDict
          [(''success'', PBool False),
           (''error'', PStr (str_exn e)),
           (''scan_type'', PStr scan_type),
           (''price_range'', PStr price_range)])"

section \<open>get\_portfolio\_summary\<close>

record holding =
  h_product_name :: string
  quantity :: int
  total_cost :: pyfloat
  h_current_value :: pyfloat
  pnl :: pyfloat
  pnl_pct :: pyfloat
  holding_days :: int
  purchase_date :: string

record portfolio_record =
  total_invested :: pyfloat
  current_value :: pyfloat
  unrealized_pnl :: pyfloat
  unrealized_pnl_pct :: pyfloat
  active_positions :: int
  avg_holding_period_days :: int
  holdings :: "holding list"

definition holding_dict :: "holding \<Rightarrow> pyval" where
  "holding_dict h = PDict
     [(''product_name'', PStr (h_product_name h)),
      (''quantity'', PInt (quantity h)),
      (''total_cost'', PFloat (total_cost h)),
      (''current_value'', PFloat (h_current_value h)),
      (''pnl'', PFloat (pnl h)),
      (''pnl_pct'', PFloat (pnl_pct h)),
      (''holding_days'', PInt (holding_days h)),
      (''purchase_date'', PStr (purchase_date h))]"

definition portfolio_dict :: "portfolio_record \<Rightarrow> pyval" where
  "portfolio_dict p = PDict
     [(''total_invested'', PFloat (total_invested p)),
      (''current_value'', PFloat (current_value p)),
      (''unrealized_pnl'', PFloat (unrealized_pnl p)),
      (''unrealized_pnl_pct'', PFloat (unrealized_pnl_pct p)),
      (''active_positions'', PInt (active_positions p)),
      (''avg_holding_period_days'', PInt (avg_holding_period_days p)),
      (''holdings'', PList (map holding_dict (holdings p)))]"

definition portfolio :: portfolio_record where
  "portfolio = \<lparr>
     total_invested = lit 2450,
     current_value = lit (5361 / 2),
     unrealized_pnl = lit (461 / 2),
     unrealized_pnl_pct = lit (47 / 5),
     active_positions = 5,
     avg_holding_period_days = 120,
     holdings =
       [\<lparr> h_product_name = ''Dominaria United Draft Booster Box'',
          quantity = 3,
          total_cost = lit 270,
          h_current_value = lit 285,
          pnl = lit 15,
          pnl_pct = lit (28 / 5),
          holding_days = 90,
          purchase_date = ''2024-03-01'' \<rparr>,
        \<lparr> h_product_name = ''Modern Horizons 3 Collector Box'',
          quantity = 1,
          total_cost = lit 380,
          h_current_value = lit 420,
          pnl = lit 40,
          pnl_pct = lit (21 / 2),
          holding_days = 60,
          purchase_date = ''2024-04-15'' \<rparr>] \<rparr>"

definition get_portfolio_summary_try :: "exn + pyval" where
  "get_portfolio_summary_try =
     (if 0 < active_positions portfolio then
        (case max_by pnl_pct (holdings portfolio) of
           Inl e \<Rightarrow> Inl e
         | Inr best_performer \<Rightarrow>
             (case min_by pnl_pct (holdings portfolio) of
                Inl e \<Rightarrow> Inl e
              | Inr worst_performer \<Rightarrow> Inr (PDict
                  [(''success'', PBool True),
                   (''portfolio'', portfolio_dict portfolio),
                   (''performance'', PDict
                      [(''best_performer'', holding_dict best_performer),
                       (''worst_performer'', holding_dict worst_performer),
                       (''overall_status'', PStr
                          (if flt (Finite 10) (unrealized_pnl_pct portfolio)
                           then ''Strong performance''
                           else if flt (Finite 0) (unrealized_pnl_pct portfolio)
                           then ''Moderate performance''
                           else ''Underperforming''))]),
                   (''recommendations'', PList
                      [PStr (if list_ex (\<lambda>h. flt (Finite 25) (pnl_pct h)) (holdings portfolio)
                             then ''Consider profit-taking on outperformers''
                             else ''Hold current positions''),
                       PStr (if flt (Finite 0) (unrealized_pnl_pct portfolio)
                             then ''Portfolio trending well''
                             else ''Review underperforming assets'')])])))
      else Inr (PDict
        [(''success'', PBool True),
         (''portfolio'', PDict [(''active_positions'', PInt 0)]),
         (''message'', PStr ''Portfolio is empty. Start by recording some investments!'')]))"

definition get_portfolio_summary :: pyval where
  "get_portfolio_summary =
     (case get_portfolio_summary_try of
        Inr result \<Rightarrow> result
      | Inl e \<Rightarrow> PDict
          [(''success'', PBool False),
           (''error'', PStr (str_exn e))])"

section \<open>Reading the results\<close>

text \<open>The value under a path of keys of nested dictionaries.\<close>

fun path :: "string list \<Rightarrow> pyval \<Rightarrow> pyval option" where
  "path [] v = Some v"
| "path (k # ks) v = (case field k v of None \<Rightarrow> None | Some w \<Rightarrow> path ks w)"

definition float_field :: "string \<Rightarrow> pyval \<Rightarrow> pyfloat option" where
  "float_field k d = (case field k d of Some (PFloat x) \<Rightarrow> Some x | _ \<Rightarrow> None)"

text \<open>
  A price snapshot of the analysis dictionary, for the status \<open>sold\<close> or \<open>active\<close>:
  minimum, median, maximum and mean are present, and ordered as a snapshot must be.
\<close>

definition snapshot_ordered :: "string \<Rightarrow> pyval \<Rightarrow> bool" where
  "snapshot_ordered status d =
     (case (float_field (''min_'' @ status @ ''_price'') d,
            float_field (''median_'' @ status @ ''_price'') d,
            float_field (''max_'' @ status @ ''_price'') d,
            float_field (''avg_'' @ status @ ''_price'') d) of
        (Some mn, Some md, Some mx, Some av) \<Rightarrow>
          fle mn md \<and> fle md mx \<and> fle mn av \<and> fle av mx
      | _ \<Rightarrow> False)"

text \<open>
  A structured result: a dictionary with a boolean \<open>success\<close>, and with the message
  of the error as a string under \<open>error\<close> when \<open>success\<close> is false.
\<close>

definition structured_result :: "pyval \<Rightarrow> bool" where
  "structured_result r =
     (case field ''success'' r of
        Some (PBool ok) \<Rightarrow>
          (if ok then True
           else (case field ''error'' r of Some (PStr m) \<Rightarrow> True | _ \<Rightarrow> False))
      | _ \<Rightarrow> False)"

text \<open>
  What a result says about its error: its entries other than the success flag and the
  arguments of the call it repeats.
\<close>

definition error_entries :: "string list \<Rightarrow> pyval \<Rightarrow> (string \<times> pyval) list" where
  "error_entries echoed r =
     filter (\<lambda>kv. fst kv \<noteq> ''success'' \<and> fst kv \<notin> set echoed) (items r)"

text \<open>The profit figures of a portfolio summary.\<close>

definition finite_float :: "pyval \<Rightarrow> rat option" where
  "finite_float v = (case v of PFloat (Finite x) \<Rightarrow> Some x | _ \<Rightarrow> None)"

definition returned_unrealized_pnl :: "pyval \<Rightarrow> rat option" where
  "returned_unrealized_pnl r =
     (case path [''portfolio'', ''unrealized_pnl''] r of
        Some v \<Rightarrow> finite_float v
      | None \<Rightarrow> None)"

definition returned_holding_pnls :: "pyval \<Rightarrow> rat list option" where
  "returned_holding_pnls r =
     (case path [''portfolio'', ''holdings''] r of
        Some (PList hs) \<Rightarrow>
          those (map (\<lambda>h. case field ''pnl'' h of Some v \<Rightarrow> finite_float v | None \<Rightarrow> None) hs)
      | _ \<Rightarrow> None)"

section \<open>Evaluating floats\<close>

lemma floor_rat_numeral:
  "\<lfloor>numeral a / numeral b :: rat\<rfloor> = numeral a div numeral b"
  by (metis floor_divide_of_int_eq of_int_numeral)

lemma ceiling_rat_numeral:
  "\<lceil>numeral a / numeral b :: rat\<rceil> = - ((- numeral a) div numeral b)"
  unfolding ceiling_def
  by (metis floor_divide_of_int_eq of_int_numeral of_int_minus minus_divide_left)

lemma floor_rat_one_numeral:
  "\<lfloor>1 / numeral b :: rat\<rfloor> = 1 div numeral b"
  by (metis floor_divide_of_int_eq of_int_numeral of_int_1)

lemmas float_eval =
  lit_def round_double_def nearest_double_def floor_log2_def pow2_def
  round_half_even_def Let_def bit_length.simps floor_rat_numeral ceiling_rat_numeral
  floor_rat_one_numeral

text \<open>The literals of the source that binary64 holds exactly, and those it rounds.\<close>

lemma lit_exact:
  "lit 75 = Finite 75"
  "lit 105 = Finite 105"
  "lit (175 / 2) = Finite (175 / 2)"
  "lit (33 / 4) = Finite (33 / 4)"
  "lit (185 / 2) = Finite (185 / 2)"
  "lit 90 = Finite 90"
  "lit 85 = Finite 85"
  "lit 110 = Finite 110"
  "lit 95 = Finite 95"
  "lit (13 / 2) = Finite (13 / 2)"
  "lit (7 / 2) = Finite (7 / 2)"
  "lit (1 / 2) = Finite (1 / 2)"
  "lit 1 = Finite 1"
  "lit 2 = Finite 2"
  "lit (145 / 2) = Finite (145 / 2)"
  "lit (189 / 2) = Finite (189 / 2)"
  "lit 102 = Finite 102"
  "lit (25 / 2) = Finite (25 / 2)"
  "lit 145 = Finite 145"
  "lit 2450 = Finite 2450"
  "lit (5361 / 2) = Finite (5361 / 2)"
  "lit (461 / 2) = Finite (461 / 2)"
  "lit 270 = Finite 270"
  "lit 285 = Finite 285"
  "lit 15 = Finite 15"
  "lit 380 = Finite 380"
  "lit 420 = Finite 420"
  "lit 40 = Finite 40"
  "lit (21 / 2) = Finite (21 / 2)"
  by (simp_all add: float_eval)

lemma lit_rounded:
  "lit (8999 / 100) = Finite (6332483288547983 / 70368744177664)"
  "lit (11 / 10) = Finite (2476979795053773 / 2251799813685248)"
  "lit (38 / 5) = Finite (4278419646001971 / 562949953421312)"
  "lit (26 / 5) = Finite (5854679515581645 / 1125899906842624)"
  "lit (64 / 5) = Finite (3602879701896397 / 281474976710656)"
  "lit (19 / 20) = Finite (4278419646001971 / 4503599627370496)"
  "lit (87 / 10) = Finite (2448832297382707 / 281474976710656)"
  "lit (47 / 5) = Finite (5291729562160333 / 562949953421312)"
  "lit (28 / 5) = Finite (3152519739159347 / 562949953421312)"
  by (simp_all add: float_eval)


text \<open>
  Values that CPython computes, as a check of the rounding: \<^verbatim>\<open>89.99 * 1.1\<close>,
  \<^verbatim>\<open>1000.0 / 85.0\<close>, \<^verbatim>\<open>1e18 / 85.0\<close>, \<^verbatim>\<open>6.5 * 11764705882352942\<close> and
  \<^verbatim>\<open>f"{0.5 * 0.95:.2f}"\<close>.
\<close>

lemma fmul_avg_sold_price:
  "fmul (lit (8999 / 100)) (lit (11 / 10)) = Finite (3482865808701391 / 35184372088832)"
  by (simp add: lit_rounded) (simp add: float_eval)

lemma round_double_1000_85:
  "round_double (1000 / 85) = Finite (827867578560753 / 70368744177664)"
  by (simp add: float_eval)

lemma round_double_1e18_85:
  "round_double (10 ^ 18 / 85) = Finite 11764705882352942"
  by (simp add: float_eval)

lemma round_double_total_1e18:
  "round_double (13 / 2 * 11764705882352942) = Finite 76470588235294128"
  by (simp add: float_eval)

lemma fmt_2f_half_tie:
  "fmt_2f (fmul (lit (1 / 2)) (lit (19 / 20))) = ''0.47''"
  "fmt_2f (fmul (lit (8999 / 100)) (lit (19 / 20))) = ''85.49''"
  by (simp_all add: lit_rounded lit_exact)
    (simp_all add: float_eval str_nat.simps)

text \<open>Rounding keeps the sign.\<close>

lemma round_half_even_nonneg: "0 \<le> y \<Longrightarrow> 0 \<le> round_half_even y"
  by (simp add: round_half_even_def Let_def)

lemma pow2_pos: "0 < pow2 k"
  by (simp add: pow2_def)

lemma nearest_double_nonneg: "0 \<le> r \<Longrightarrow> 0 \<le> nearest_double r"
  using pow2_pos [of "max (floor_log2 \<bar>r\<bar> - 52) (- 1074)"]
  by (simp add: nearest_double_def Let_def round_half_even_nonneg less_imp_le)

lemma round_double_nonneg: "0 \<le> r \<Longrightarrow> round_double r = Finite q \<Longrightarrow> 0 \<le> q"
  using nearest_double_nonneg [of r]
  by (auto simp add: round_double_def Let_def split: if_splits)

section \<open>The results of the tools\<close>

lemma str_int_25: "str_int 25 = ''25''"
  by (simp add: str_int_def str_nat.simps)

lemma recommendation_condition:
  "flt (lit (185 / 2)) (fmul (lit (8999 / 100)) (lit (11 / 10)))"
  by (simp add: fmul_avg_sold_price lit_exact)

lemma track_product_prices_try_value:
  "track_product_prices_try product_name update_frequency = Inr (PDict
     [(''success'', PBool True),
      (''data'', PDict
        [(''product_name'', PStr product_name),
         (''data_points'', PInt 25),
         (''date_range'', PInt 30),
         (''sold_listings'', PInt 15),
         (''active_listings'', PInt 10),
         (''avg_sold_price'', PFloat (lit (8999 / 100))),
         (''median_sold_price'', PFloat (lit (175 / 2))),
         (''min_sold_price'', PFloat (lit 75)),
         (''max_sold_price'', PFloat (lit 105)),
         (''sold_price_volatility'', PFloat (lit (33 / 4))),
         (''avg_active_price'', PFloat (lit (185 / 2))),
         (''median_active_price'', PFloat (lit 90)),
         (''min_active_price'', PFloat (lit 85)),
         (''max_active_price'', PFloat (lit 110))]),
      (''summary'', PStr (''Found 25 listings for '' @ product_name)),
      (''recommendation'', PStr ''Good buying opportunity'')])"
  by (simp add: track_product_prices_try_def price_analysis_dict_def str_int_25
      recommendation_condition)

lemma track_product_prices_value:
  "track_product_prices product_name update_frequency = PDict
     [(''success'', PBool True),
      (''data'', PDict
        [(''product_name'', PStr product_name),
         (''data_points'', PInt 25),
         (''date_range'', PInt 30),
         (''sold_listings'', PInt 15),
         (''active_listings'', PInt 10),
         (''avg_sold_price'', PFloat (lit (8999 / 100))),
         (''median_sold_price'', PFloat (lit (175 / 2))),
         (''min_sold_price'', PFloat (lit 75)),
         (''max_sold_price'', PFloat (lit 105)),
         (''sold_price_volatility'', PFloat (lit (33 / 4))),
         (''avg_active_price'', PFloat (lit (185 / 2))),
         (''median_active_price'', PFloat (lit 90)),
         (''min_active_price'', PFloat (lit 85)),
         (''max_active_price'', PFloat (lit 110))]),
      (''summary'', PStr (''Found 25 listings for '' @ product_name)),
      (''recommendation'', PStr ''Good buying opportunity'')]"
  by (simp add: track_product_prices_def track_product_prices_try_value)

lemma price_bounds_values:
  "price_bounds ''under100'' = (Finite 0, Finite 100)"
  "price_bounds ''100-500'' = (Finite 100, Finite 500)"
  "price_bounds ''500-1000'' = (Finite 500, Finite 1000)"
  "price_bounds ''over1000'' = (Finite 1000, Infinity)"
  by (simp_all add: price_bounds_def)

lemma price_bounds_unknown:
  "price_range \<notin> {''under100'', ''100-500'', ''500-1000'', ''over1000''}
   \<Longrightarrow> price_bounds price_range = (Finite 0, Infinity)"
  by (simp add: price_bounds_def)

lemma market_scanner_try_value:
  "market_scanner_try scan_type price_range time_period = Inr (PDict
     [(''success'', PBool True),
      (''scan_type'', PStr scan_type),
      (''price_range'', PStr price_range),
      (''time_period'', PStr time_period),
      (''products_analyzed'', PInt 10),
      (''opportunities_found'', PInt (int (length
          (filtered_opportunities price_range (scan_opportunities scan_type))))),
      (''opportunities'', PList (map scan_opportunity_dict
          (filtered_opportunities price_range (scan_opportunities scan_type)))),
      (''summary'', PStr (''Found ''
          @ str_nat (length (filtered_opportunities price_range (scan_opportunities scan_type)))
          @ '' '' @ scan_type @ '' opportunities in $'' @ replace_hyphen price_range
          @ '' range''))])"
  by (simp add: market_scanner_try_def Let_def)

lemma market_scanner_value:
  "market_scanner scan_type price_range time_period = PDict
     [(''success'', PBool True),
      (''scan_type'', PStr scan_type),
      (''price_range'', PStr price_range),
      (''time_period'', PStr time_period),
      (''products_analyzed'', PInt 10),
      (''opportunities_found'', PInt (int (length
          (filtered_opportunities price_range (scan_opportunities scan_type))))),
      (''opportunities'', PList (map scan_opportunity_dict
          (filtered_opportunities price_range (scan_opportunities scan_type)))),
      (''summary'', PStr (''Found ''
          @ str_nat (length (filtered_opportunities price_range (scan_opportunities scan_type)))
          @ '' '' @ scan_type @ '' opportunities in $'' @ replace_hyphen price_range
          @ '' range''))]"
  by (simp add: market_scanner_def market_scanner_try_value)

lemma filtered_unknown:
  "price_range \<notin> {''under100'', ''100-500'', ''500-1000'', ''over1000''}
   \<Longrightarrow> filtered_opportunities price_range (scan_opportunities scan_type)
       = scan_opportunities scan_type"
  by (simp add: filtered_opportunities_def price_bounds_unknown scan_opportunities_def
      lit_exact lit_rounded)

lemma filtered_under100:
  "filtered_opportunities ''under100'' (scan_opportunities scan_type)
     = [hd (scan_opportunities scan_type)]"
  by (simp add: filtered_opportunities_def price_bounds_values scan_opportunities_def
      lit_exact lit_rounded)

lemma analyze_investment_potential_try_value:
  "\<exists>r. analyze_investment_potential_try product_name investment_horizon
         = Inr (PDict ((''success'', PBool True) # r))"
  by (simp add: analyze_investment_potential_try_def Let_def lit_rounded)

lemma potential_upside_medium:
  "path [''potential_upside_pct''] (analyze_investment_potential product_name ''medium'')
     = Some (pfloat (3756544583059207 / 281474976710656))"
  by (simp add: analyze_investment_potential_def analyze_investment_potential_try_def
      Let_def horizon_multiplier_def lit_rounded lit_exact)
    (simp add: float_eval)

lemma get_portfolio_summary_try_value:
  "get_portfolio_summary_try = Inr (PDict
     [(''success'', PBool True),
      (''portfolio'', portfolio_dict portfolio),
      (''performance'', PDict
         [(''best_performer'', holding_dict (holdings portfolio ! 1)),
          (''worst_performer'', holding_dict (holdings portfolio ! 0)),
          (''overall_status'', PStr ''Moderate performance'')]),
      (''recommendations'', PList
         [PStr ''Hold current positions'', PStr ''Portfolio trending well''])])"
  by (simp add: get_portfolio_summary_try_def portfolio_def lit_exact lit_rounded)

lemma get_portfolio_summary_value:
  "get_portfolio_summary = PDict
     [(''success'', PBool True),
      (''portfolio'', portfolio_dict portfolio),
      (''performance'', PDict
         [(''best_performer'', holding_dict (holdings portfolio ! 1)),
          (''worst_performer'', holding_dict (holdings portfolio ! 0)),
          (''overall_status'', PStr ''Moderate performance'')]),
      (''recommendations'', PList
         [PStr ''Hold current positions'', PStr ''Portfolio trending well''])]"
  by (simp add: get_portfolio_summary_def get_portfolio_summary_try_value)

lemma best_opportunity_value:
  "arbitrage_opportunity_dict (hd opportunities) = PDict
     [(''buy_price'', pfloat 85),
      (''sell_price'', pfloat 95),
      (''net_profit'', pfloat (13 / 2)),
      (''roi_percentage'', PFloat (lit (38 / 5))),
      (''confidence_score'', PInt 78),
      (''estimated_fees'', pfloat (7 / 2)),
      (''buy_source'', PStr ''eBay Auctions''),
      (''sell_source'', PStr ''eBay Buy-It-Now'')]"
  by (simp add: arbitrage_opportunity_dict_def opportunities_def lit_exact)

text \<open>The body of \<open>find_arbitrage_opportunities\<close> with the list literal read.\<close>

lemma find_arbitrage_try_unfold:
  "find_arbitrage_opportunities_try repr product_name min_profit_margin max_investment =
     (case fdiv max_investment (Finite 85) of
        Inl e \<Rightarrow> Inl e
      | Inr ratio \<Rightarrow>
          (case py_int ratio of
             Inl e \<Rightarrow> Inl e
           | Inr max_units \<Rightarrow>
               (case float_of_int max_units of
                  Inl e \<Rightarrow> Inl e
                | Inr units \<Rightarrow> Inr (PDict
                    [(''success'', PBool True),
                     (''opportunities_found'', PInt 1),
                     (''best_opportunity'', arbitrage_opportunity_dict (hd opportunities)),
                     (''scaled_analysis'', PDict
                        [(''max_units'', PInt max_units),
                         (''total_profit'', PFloat (fmul (Finite (13 / 2)) units)),
                         (''total_investment'', PFloat max_investment)]),
                     (''product_name'', PStr product_name)]))))"
  by (simp add: find_arbitrage_opportunities_try_def opportunities_def lit_exact Let_def
      split: sum.splits)

lemma float_of_int_11: "float_of_int 11 = Inr (Finite 11)"
  by (simp add: float_of_int_def float_eval)

lemma float_of_int_1e18: "float_of_int 11764705882352942 = Inr (Finite 11764705882352942)"
  by (simp add: float_of_int_def float_eval)

lemma find_arbitrage_1000:
  "find_arbitrage_opportunities repr product_name min_profit_margin (Finite 1000) = PDict
     [(''success'', PBool True),
      (''opportunities_found'', PInt 1),
      (''best_opportunity'', arbitrage_opportunity_dict (hd opportunities)),
      (''scaled_analysis'', PDict
         [(''max_units'', PInt 11),
          (''total_profit'', pfloat (143 / 2)),
          (''total_investment'', pfloat 1000)]),
      (''product_name'', PStr product_name)]"
proof -
  have q: "round_double (200 / 17) = Finite (827867578560753 / 70368744177664)"
    using round_double_1000_85 by simp
  have t: "trunc_rat (827867578560753 / 70368744177664) = 11"
    by (simp add: trunc_rat_def floor_rat_numeral)
  have p: "round_double (143 / 2) = Finite (143 / 2)"
    by (simp add: float_eval)
  show ?thesis
    by (simp add: find_arbitrage_opportunities_def find_arbitrage_try_unfold q t
        float_of_int_11 p)
qed

lemma find_arbitrage_1e18:
  "find_arbitrage_opportunities repr product_name min_profit_margin (Finite (10 ^ 18)) = PDict
     [(''success'', PBool True),
      (''opportunities_found'', PInt 1),
      (''best_opportunity'', arbitrage_opportunity_dict (hd opportunities)),
      (''scaled_analysis'', PDict
         [(''max_units'', PInt 11764705882352942),
          (''total_profit'', pfloat 76470588235294128),
          (''total_investment'', pfloat (10 ^ 18))]),
      (''product_name'', PStr product_name)]"
proof -
  have q: "fdiv (Finite (10 ^ 18)) (Finite 85) = Inr (Finite 11764705882352942)"
    using round_double_1e18_85 by simp
  have t: "trunc_rat 11764705882352942 = 11764705882352942"
    by (simp add: trunc_rat_def)
  have p: "round_double 76470588235294123 = Finite 76470588235294128"
    by (simp add: float_eval)
  show ?thesis
    unfolding find_arbitrage_opportunities_def find_arbitrage_try_unfold q
    by (simp add: t float_of_int_1e18 p)
qed

lemma find_arbitrage_try_special:
  "find_arbitrage_opportunities_try repr product_name min_profit_margin Infinity =
     Inl (OverflowError ''cannot convert float infinity to integer'')"
  "find_arbitrage_opportunities_try repr product_name min_profit_margin NegInfinity =
     Inl (OverflowError ''cannot convert float infinity to integer'')"
  "find_arbitrage_opportunities_try repr product_name min_profit_margin NaN =
     Inl (ValueError ''cannot convert float NaN to integer'')"
  by (simp_all add: find_arbitrage_try_unfold)

lemma find_arbitrage_special:
  "find_arbitrage_opportunities repr product_name min_profit_margin Infinity = PDict
     [(''success'', PBool False),
      (''error'', PStr ''cannot convert float infinity to integer''),
      (''product_name'', PStr product_name)]"
  "find_arbitrage_opportunities repr product_name min_profit_margin NegInfinity = PDict
     [(''success'', PBool False),
      (''error'', PStr ''cannot convert float infinity to integer''),
      (''product_name'', PStr product_name)]"
  "find_arbitrage_opportunities repr product_name min_profit_margin NaN = PDict
     [(''success'', PBool False),
      (''error'', PStr ''cannot convert float NaN to integer''),
      (''product_name'', PStr product_name)]"
  by (simp_all add: find_arbitrage_opportunities_def find_arbitrage_try_special)

lemma trunc_rat_nonneg: "0 \<le> x \<Longrightarrow> trunc_rat x = \<lfloor>x\<rfloor>"
  by (simp add: trunc_rat_def)

section \<open>Claims\<close>

text \<open>
  C9. The result of \<open>track_product_prices\<close> is the same dictionary for
  \<open>update_frequency = "auto"\<close> and for \<open>update_frequency = "force"\<close>.
\<close>

theorem update_frequency_no_effect:
  "track_product_prices product_name ''auto'' = track_product_prices product_name ''force''"
  by (simp add: track_product_prices_def track_product_prices_try_def)

text \<open>
  C7. Each of the two price snapshots (sold, active) in the result of
  \<open>track_product_prices\<close> satisfies min \<open>\<le>\<close> median \<open>\<le>\<close> max, and its mean lies between
  its min and its max.
\<close>

theorem price_snapshots_ordered:
  "\<exists>d. field ''data'' (track_product_prices product_name update_frequency) = Some d
       \<and> snapshot_ordered ''sold'' d \<and> snapshot_ordered ''active'' d"
  by (simp add: track_product_prices_value snapshot_ordered_def float_field_def
      lit_exact lit_rounded)

text \<open>
  C1, as the code has it. \<open>track_product_prices\<close> reads no listings: for every product
  name and every update frequency it returns success with the same fixed statistics
  (25 data points, 15 sold listings, mean sold price 89.99), and it has no failure
  result for a product without listings.
\<close>

theorem track_product_prices_always_succeeds:
  "path [''success''] (track_product_prices product_name update_frequency) = Some (PBool True)
   \<and> path [''data'', ''data_points''] (track_product_prices product_name update_frequency)
       = Some (PInt 25)
   \<and> path [''data'', ''sold_listings''] (track_product_prices product_name update_frequency)
       = Some (PInt 15)
   \<and> path [''data'', ''avg_sold_price''] (track_product_prices product_name update_frequency)
       = Some (PFloat (lit (8999 / 100)))
   \<and> path [''error''] (track_product_prices product_name update_frequency) = None
   \<and> track_product_prices_try product_name update_frequency
       = Inr (track_product_prices product_name update_frequency)"
  by (simp add: track_product_prices_value track_product_prices_try_value)

text \<open>
  C1 as stated fails: a product name that no marketplace lists gets success and
  statistics, not a failure result.
\<close>

theorem track_product_prices_unlisted_counterexample:
  "path [''success''] (track_product_prices ''A Product Nobody Lists'' ''auto'')
     \<noteq> Some (PBool False)
   \<and> path [''data'', ''sold_listings''] (track_product_prices ''A Product Nobody Lists'' ''auto'')
     = Some (PInt 15)
   \<and> path [''data'', ''avg_sold_price''] (track_product_prices ''A Product Nobody Lists'' ''auto'')
     = Some (PFloat (lit (8999 / 100)))"
  by (simp add: track_product_prices_value)

text \<open>
  C6, as the code has it. For every \<open>max_investment > 0\<close> and every best opportunity
  that \<open>find_arbitrage_opportunities\<close> returns, the buy price is positive,
  \<open>max_units\<close> is the floor of the float quotient \<open>max_investment / buy_price\<close> (the
  exact quotient rounded to the nearest binary64 number), and \<open>total_profit\<close> is the
  float product of \<open>net_profit\<close> and \<open>max_units\<close> (the exact product, rounded).
\<close>

theorem scaled_analysis_rounded:
  assumes "flt (Finite 0) max_investment"
    and "path [''best_opportunity'']
           (find_arbitrage_opportunities repr product_name min_profit_margin max_investment)
         = Some best"
  shows "\<exists>m bp np q units.
           max_investment = Finite m
         \<and> path [''buy_price''] best = Some (pfloat bp) \<and> 0 < bp
         \<and> path [''net_profit''] best = Some (PFloat np)
         \<and> fdiv max_investment (Finite bp) = Inr (Finite q)
         \<and> round_double (m / bp) = Finite q
         \<and> path [''scaled_analysis'', ''max_units'']
             (find_arbitrage_opportunities repr product_name min_profit_margin max_investment)
            = Some (PInt \<lfloor>q\<rfloor>)
         \<and> float_of_int \<lfloor>q\<rfloor> = Inr units
         \<and> path [''scaled_analysis'', ''total_profit'']
             (find_arbitrage_opportunities repr product_name min_profit_margin max_investment)
            = Some (PFloat (fmul np units))"
proof (cases max_investment)
  case (Finite m)
  with assms(1) have pos: "0 < m" by simp
  show ?thesis
  proof (cases "round_double (m / 85)")
    case q: (Finite q)
    from pos have "0 \<le> m / 85" by simp
    then have "0 \<le> q" using q by (rule round_double_nonneg)
    then have tr: "trunc_rat q = \<lfloor>q\<rfloor>" by (rule trunc_rat_nonneg)
    show ?thesis
    proof (cases "float_of_int \<lfloor>q\<rfloor>")
      case (Inl e)
      with assms(2) Finite q tr show ?thesis
        by (simp add: find_arbitrage_opportunities_def find_arbitrage_try_unfold)
    next
      case (Inr units)
      with assms(2) Finite q tr
      have best: "best = arbitrage_opportunity_dict (hd opportunities)"
        by (simp add: find_arbitrage_opportunities_def find_arbitrage_try_unfold)
      show ?thesis
        unfolding best
        by (intro exI [of _ m] exI [of _ 85] exI [of _ "Finite (13 / 2)"]
            exI [of _ q] exI [of _ units])
          (simp add: Finite q tr Inr find_arbitrage_opportunities_def
            find_arbitrage_try_unfold best_opportunity_value)
    qed
  next
    case Infinity
    with assms(2) Finite show ?thesis
      by (simp add: find_arbitrage_opportunities_def find_arbitrage_try_unfold)
  next
    case NegInfinity
    with assms(2) Finite show ?thesis
      by (simp add: find_arbitrage_opportunities_def find_arbitrage_try_unfold)
  next
    case NaN
    with assms(2) Finite show ?thesis
      by (simp add: find_arbitrage_opportunities_def find_arbitrage_try_unfold)
  qed
next
  case Infinity
  with assms(2) show ?thesis by (simp add: find_arbitrage_special)
next
  case NegInfinity
  with assms(1) show ?thesis by simp
next
  case NaN
  with assms(1) show ?thesis by simp
qed

theorem scaled_analysis_rounded_witness:
  "flt (Finite 0) (Finite 1000)
   \<and> path [''best_opportunity'']
        (find_arbitrage_opportunities (\<lambda>x. ''10.0'') ''Box'' (Finite 10) (Finite 1000))
      = Some (arbitrage_opportunity_dict (hd opportunities))
   \<and> round_double (1000 / 85) = Finite (827867578560753 / 70368744177664)
   \<and> path [''scaled_analysis'', ''max_units'']
        (find_arbitrage_opportunities (\<lambda>x. ''10.0'') ''Box'' (Finite 10) (Finite 1000))
      = Some (PInt 11)
   \<and> path [''scaled_analysis'', ''total_profit'']
        (find_arbitrage_opportunities (\<lambda>x. ''10.0'') ''Box'' (Finite 10) (Finite 1000))
      = Some (pfloat (143 / 2))"
proof -
  have h1: "flt (Finite 0) (Finite 1000)" by simp
  have h2: "path [''best_opportunity'']
        (find_arbitrage_opportunities (\<lambda>x. ''10.0'') ''Box'' (Finite 10) (Finite 1000))
      = Some (arbitrage_opportunity_dict (hd opportunities))"
    by (simp add: find_arbitrage_1000)
  from scaled_analysis_rounded [OF h1 h2] h1 h2 round_double_1000_85 show ?thesis
    by (simp add: find_arbitrage_1000)
qed

text \<open>
  C6 as stated fails: at \<open>max_investment = 1e18\<close> the tool returns
  \<open>max_units = 11764705882352942\<close>, one more than the floor of the exact quotient, and
  \<open>total_profit = 76470588235294128\<close>, which is not 6.5 times the units returned.
\<close>

theorem scaled_analysis_floor_counterexample:
  "lit (10 ^ 18) = Finite (10 ^ 18)
   \<and> path [''scaled_analysis'', ''max_units'']
        (find_arbitrage_opportunities (\<lambda>x. ''10.0'') ''Box'' (Finite 10) (Finite (10 ^ 18)))
      = Some (PInt 11764705882352942)
   \<and> \<lfloor>10 ^ 18 / 85 :: rat\<rfloor> = 11764705882352941
   \<and> path [''scaled_analysis'', ''total_profit'']
        (find_arbitrage_opportunities (\<lambda>x. ''10.0'') ''Box'' (Finite 10) (Finite (10 ^ 18)))
      = Some (pfloat 76470588235294128)
   \<and> (13 / 2 :: rat) * 11764705882352942 = 76470588235294123"
proof -
  have "lit (10 ^ 18) = Finite (10 ^ 18)"
    by (simp add: float_eval)
  moreover have "\<lfloor>10 ^ 18 / 85 :: rat\<rfloor> = 11764705882352941"
    by (simp add: floor_rat_numeral)
  ultimately show ?thesis
    using find_arbitrage_1e18 [of "\<lambda>x. ''10.0''" "''Box''" "Finite 10"]
    by simp
qed


text \<open>
  C2, as the code has it. \<open>get_portfolio_summary\<close> returns the per-holding pnl values
  15 and 40, whose sum is 55, and the portfolio-level \<open>unrealized_pnl\<close> 230.50: the
  portfolio-level figure is a constant of the portfolio literal, not the sum of the
  holdings returned with it.
\<close>

theorem portfolio_pnl_figures:
  "returned_holding_pnls get_portfolio_summary = Some [15, 40]
   \<and> map_option sum_list (returned_holding_pnls get_portfolio_summary) = Some 55
   \<and> returned_unrealized_pnl get_portfolio_summary = Some (461 / 2)"
  by (simp add: get_portfolio_summary_value returned_holding_pnls_def
      returned_unrealized_pnl_def portfolio_dict_def portfolio_def holding_dict_def
      finite_float_def lit_exact)

text \<open>
  C2 as stated fails: the holdings are returned, and the portfolio-level
  \<open>unrealized_pnl\<close> is not the sum of their pnl values.
\<close>

theorem portfolio_pnl_sum_counterexample:
  "returned_holding_pnls get_portfolio_summary \<noteq> None
   \<and> returned_holding_pnls get_portfolio_summary \<noteq> Some []
   \<and> returned_unrealized_pnl get_portfolio_summary
       \<noteq> map_option sum_list (returned_holding_pnls get_portfolio_summary)"
  by (simp add: get_portfolio_summary_value returned_holding_pnls_def
      returned_unrealized_pnl_def portfolio_dict_def portfolio_def holding_dict_def
      finite_float_def lit_exact)

text \<open>
  C3 at the default arguments (\<open>min_profit_margin = 10.0\<close>, \<open>max_investment = 1000.0\<close>):
  \<open>find_arbitrage_opportunities\<close> returns success with a best opportunity whose
  \<open>roi_percentage\<close> is 7.6, below the minimum margin asked for.
\<close>

theorem arbitrage_margin_not_applied:
  "path [''success'']
     (find_arbitrage_opportunities repr product_name (Finite 10) (Finite 1000))
     = Some (PBool True)
   \<and> path [''best_opportunity'', ''roi_percentage'']
       (find_arbitrage_opportunities repr product_name (Finite 10) (Finite 1000))
     = Some (PFloat (lit (38 / 5)))
   \<and> flt (lit (38 / 5)) (Finite 10)"
  by (simp add: find_arbitrage_1000 best_opportunity_value)
    (simp add: lit_rounded)

text \<open>
  C4, as the code has it. \<open>market_scanner\<close> returns success for every \<open>scan_type\<close>,
  \<open>price_range\<close> and \<open>time_period\<close>. A \<open>price_range\<close> outside the four names leaves the
  bounds at their initial values 0 and infinity, so that every product of the list is
  returned; a \<open>scan_type\<close> other than \<open>trending\<close> is scanned as any other non-trending
  type is.
\<close>

theorem market_scanner_unknown_values_default:
  "path [''success''] (market_scanner scan_type price_range time_period) = Some (PBool True)
   \<and> path [''error''] (market_scanner scan_type price_range time_period) = None
   \<and> (price_range \<notin> {''under100'', ''100-500'', ''500-1000'', ''over1000''} \<longrightarrow>
         price_bounds price_range = (Finite 0, Infinity)
       \<and> path [''opportunities''] (market_scanner scan_type price_range time_period)
           = Some (PList (map scan_opportunity_dict (scan_opportunities scan_type))))
   \<and> (scan_type \<noteq> ''trending'' \<longrightarrow>
         scan_opportunities scan_type = scan_opportunities ''undervalued'')"
  by (simp add: market_scanner_value price_bounds_unknown filtered_unknown)
    (simp add: scan_opportunities_def)

theorem market_scanner_unknown_values_default_witness:
  "''cheap'' \<notin> {''under100'', ''100-500'', ''500-1000'', ''over1000''}
   \<and> ''sideways'' \<noteq> ''trending''
   \<and> path [''success''] (market_scanner ''sideways'' ''cheap'' ''7d'') = Some (PBool True)
   \<and> price_bounds ''cheap'' = (Finite 0, Infinity)
   \<and> path [''opportunities''] (market_scanner ''sideways'' ''cheap'' ''7d'')
       = Some (PList (map scan_opportunity_dict (scan_opportunities ''undervalued'')))"
  using market_scanner_unknown_values_default [of "''sideways''" "''cheap''" "''7d''"]
  by simp

text \<open>
  C4 as stated fails: an unknown \<open>scan_type\<close> and an unknown \<open>price_range\<close> both get
  success, and the unknown \<open>price_range\<close> returns both products of the list.
\<close>

theorem market_scanner_unknown_values_counterexample:
  "path [''success''] (market_scanner ''sideways'' ''100-500'' ''7d'') = Some (PBool True)
   \<and> path [''success''] (market_scanner ''trending'' ''cheap'' ''7d'') = Some (PBool True)
   \<and> path [''opportunities_found''] (market_scanner ''trending'' ''cheap'' ''7d'')
       = Some (PInt 2)"
  by (simp add: market_scanner_value filtered_unknown)
    (simp add: scan_opportunities_def)




text \<open>
  C8, as the code has it. Each of the five tools returns, for every input, a
  dictionary with a boolean \<open>success\<close>; when it is false the dictionary holds the
  message of the exception as a string under \<open>error\<close>. Every exception raised in the
  body of \<open>find_arbitrage_opportunities\<close> is turned into the dictionary of
  \<open>success\<close>, \<open>error\<close> and \<open>product_name\<close>, which has no entry for an error code.
\<close>

theorem results_structured:
  "structured_result (track_product_prices product_name update_frequency)
   \<and> structured_result
       (find_arbitrage_opportunities repr product_name min_profit_margin max_investment)
   \<and> structured_result (analyze_investment_potential product_name investment_horizon)
   \<and> structured_result (market_scanner scan_type price_range time_period)
   \<and> structured_result get_portfolio_summary
   \<and> (find_arbitrage_opportunities_try repr product_name min_profit_margin max_investment
         = Inl e \<longrightarrow>
       find_arbitrage_opportunities repr product_name min_profit_margin max_investment
         = PDict [(''success'', PBool False),
                  (''error'', PStr (str_exn e)),
                  (''product_name'', PStr product_name)])"
proof -
  have "structured_result (track_product_prices product_name update_frequency)"
    by (simp add: structured_result_def track_product_prices_value)
  moreover have "structured_result
       (find_arbitrage_opportunities repr product_name min_profit_margin max_investment)"
    by (simp add: structured_result_def find_arbitrage_opportunities_def
        find_arbitrage_try_unfold split: sum.splits)
  moreover have "structured_result (analyze_investment_potential product_name investment_horizon)"
    using analyze_investment_potential_try_value [of product_name investment_horizon]
    by (auto simp add: structured_result_def analyze_investment_potential_def)
  moreover have "structured_result (market_scanner scan_type price_range time_period)"
    by (simp add: structured_result_def market_scanner_value)
  moreover have "structured_result get_portfolio_summary"
    by (simp add: structured_result_def get_portfolio_summary_value)
  moreover have "find_arbitrage_opportunities_try repr product_name min_profit_margin
        max_investment = Inl e \<longrightarrow>
       find_arbitrage_opportunities repr product_name min_profit_margin max_investment
         = PDict [(''success'', PBool False),
                  (''error'', PStr (str_exn e)),
                  (''product_name'', PStr product_name)]"
    by (simp add: find_arbitrage_opportunities_def)
  ultimately show ?thesis by blast
qed

theorem results_structured_witness:
  "find_arbitrage_opportunities_try (\<lambda>x. ''10.0'') ''Box'' (Finite 10) Infinity
     = Inl (OverflowError ''cannot convert float infinity to integer'')
   \<and> find_arbitrage_opportunities (\<lambda>x. ''10.0'') ''Box'' (Finite 10) Infinity
     = PDict [(''success'', PBool False),
              (''error'', PStr ''cannot convert float infinity to integer''),
              (''product_name'', PStr ''Box'')]
   \<and> structured_result (find_arbitrage_opportunities (\<lambda>x. ''10.0'') ''Box'' (Finite 10) Infinity)"
  using results_structured [of "''Box''" "''auto''" "\<lambda>x. ''10.0''" "Finite 10" Infinity
      "''medium''" "''trending''" "''100-500''" "''7d''"
      "OverflowError ''cannot convert float infinity to integer''"]
  by (simp add: find_arbitrage_try_special structured_result_def)

text \<open>
  C8 as stated fails: a failure result carries the message of the exception and
  nothing else about the error, so no error code.
\<close>

theorem failure_result_no_error_code_counterexample:
  "field ''success'' (find_arbitrage_opportunities (\<lambda>x. ''10.0'') ''Box'' (Finite 10) Infinity)
     = Some (PBool False)
   \<and> error_entries [''product_name'']
       (find_arbitrage_opportunities (\<lambda>x. ''10.0'') ''Box'' (Finite 10) Infinity)
     = [(''error'', PStr ''cannot convert float infinity to integer'')]"
  by (simp add: find_arbitrage_special error_entries_def)

end
